theory Spec2Isabelle
  imports Complex_Main
begin

section \<open>Market data acquisition\<close>

subsection \<open>Decoded JSON and raw coin records\<close>

text \<open>
  A decoded JSON value. Python's \<^verbatim>\<open>None\<close> is \<open>JNull\<close>. A raw coin is the \<^verbatim>\<open>dict\<close> that
  \<^verbatim>\<open>response.json()\<close> yields for one array element, kept as an association list in key
  order; \<^verbatim>\<open>key in coin\<close> is \<open>map_of coin key \<noteq> None\<close>.
\<close>

datatype json =
    JNull
  | JBool bool
  | JNum real
  | JStr string
  | JArr "json list"
  | JObj "(string \<times> json) list"

type_synonym raw = "(string \<times> json) list"

text \<open>\<^verbatim>\<open>coin.get(key)\<close>: the value, or \<^verbatim>\<open>None\<close> when the key is absent.\<close>

definition get :: "raw \<Rightarrow> string \<Rightarrow> json" where
  "get coin key = (case map_of coin key of None \<Rightarrow> JNull | Some v \<Rightarrow> v)"

text \<open>\<^verbatim>\<open>coin.get(key, default)\<close>.\<close>

definition get_default :: "raw \<Rightarrow> string \<Rightarrow> json \<Rightarrow> json" where
  "get_default coin key d = (case map_of coin key of None \<Rightarrow> d | Some v \<Rightarrow> v)"

subsection \<open>The page loop and the retry loop\<close>

text \<open>
  The outcome of \<^verbatim>\<open>requests.get(...)\<close>, \<^verbatim>\<open>raise_for_status()\<close> and \<^verbatim>\<open>json()\<close> together:
  a \<^verbatim>\<open>RequestException\<close>, or the decoded array. The remote API is a function of the page
  asked for and of the value of \<^verbatim>\<open>attempt\<close> (the number of failed requests for this page
  so far) at the time of the request.
\<close>

datatype response = RequestException | Json "raw list"

type_synonym client = "int \<Rightarrow> int \<Rightarrow> response"

datatype fetch_error = RequestFailed | NoDataFetched

text \<open>
  How the \<^verbatim>\<open>while attempt < retries\<close> loop of one page ends: by \<^verbatim>\<open>break\<close> after a
  successful request (with the decoded data, possibly empty), by leaving the function
  after the last failed attempt, or by its condition being false at once.
\<close>

datatype page_outcome = Fetched "raw list" | Exhausted | NotAttempted

text \<open>
  The retry loop of \<^verbatim>\<open>fetch_market_data\<close> (app.py lines 41-65, fetch\_coingecko.py
  lines 24-39). The second component is the log of requests issued: the page number of
  every \<^verbatim>\<open>requests.get\<close> call, in order.
\<close>

function retry_loop :: "client \<Rightarrow> int \<Rightarrow> int \<Rightarrow> int \<Rightarrow> int list \<Rightarrow> page_outcome \<times> int list" where
  "retry_loop client retries page attempt reqs =
     (if attempt < retries then
        (case client page attempt of
           Json data \<Rightarrow> (Fetched data, reqs @ [page])
         | RequestException \<Rightarrow>
             (if attempt + 1 < retries
              then retry_loop client retries page (attempt + 1) (reqs @ [page])
              else (Exhausted, reqs @ [page])))
      else (NotAttempted, reqs))"
  by pat_completeness auto
termination
  by (relation "measure (\<lambda>(client, retries, page, attempt, reqs). nat (retries - attempt))") auto

declare retry_loop.simps [simp del]

text \<open>
  The \<^verbatim>\<open>for page in range(1, pages + 1)\<close> loop over the remaining pages. Both \<^verbatim>\<open>break\<close>
  statements of the source leave the inner \<^verbatim>\<open>while\<close> loop only, so after a page that
  came back (empty or not) the \<^verbatim>\<open>for\<close> loop goes on with the next page.
\<close>

fun page_loop :: "client \<Rightarrow> int \<Rightarrow> int list \<Rightarrow> raw list \<Rightarrow> int list \<Rightarrow> (fetch_error + raw list) \<times> int list" where
  "page_loop client retries [] all_coins reqs = (Inr all_coins, reqs)"
| "page_loop client retries (page # rest) all_coins reqs =
     (case retry_loop client retries page 0 reqs of
        (Fetched data, reqs') \<Rightarrow>
          page_loop client retries rest (if data \<noteq> [] then all_coins @ data else all_coins) reqs'
      | (Exhausted, reqs') \<Rightarrow> (Inl RequestFailed, reqs')
      | (NotAttempted, reqs') \<Rightarrow> page_loop client retries rest all_coins reqs')"

definition fetch_pages :: "client \<Rightarrow> int \<Rightarrow> int \<Rightarrow> (fetch_error + raw list) \<times> int list" where
  "fetch_pages client pages retries = page_loop client retries [1..pages] [] []"

subsection \<open>Validation of the fetched records (app.py)\<close>

definition required_keys :: "string list" where
  "required_keys =
     [''id'', ''symbol'', ''name'', ''market_cap'', ''market_cap_rank'', ''current_price'']"

text \<open>\<^verbatim>\<open>key not in coin or coin.get(key) is None\<close>.\<close>

definition is_missing :: "raw \<Rightarrow> string \<Rightarrow> bool" where
  "is_missing coin key = (map_of coin key = None \<or> get coin key = JNull)"

text \<open>\<^verbatim>\<open>missing_keys = [key for key in required_keys if ...]\<close>.\<close>

definition missing_keys :: "raw \<Rightarrow> string list" where
  "missing_keys coin = filter (is_missing coin) required_keys"

text \<open>
  An entry of \<^verbatim>\<open>skipped_coins_log\<close>. The source formats a message; the entry keeps what
  the message is built from: the id shown (\<^verbatim>\<open>coin.get('id', 'Unknown ID')\<close>) and, for
  the second kind, the rank shown and the names of the missing keys.
\<close>

datatype skip_entry = MissingRank json | MissingKeys json json "string list"

text \<open>
  \<^verbatim>\<open>{key: coin[key] for key in required_keys}\<close>. It is evaluated only when no required
  key is missing, so \<^verbatim>\<open>coin[key]\<close> cannot raise there and equals \<^verbatim>\<open>coin.get(key)\<close>.
\<close>

definition project :: "string list \<Rightarrow> raw \<Rightarrow> raw" where
  "project keys coin = map (\<lambda>key. (key, get coin key)) keys"

text \<open>The body of the loop \<^verbatim>\<open>for coin in all_coins\<close> (app.py lines 77-89).\<close>

definition process_coin :: "raw list \<times> skip_entry list \<Rightarrow> raw \<Rightarrow> raw list \<times> skip_entry list" where
  "process_coin acc coin =
     (case acc of (processed_coins, skipped_coins_log) \<Rightarrow>
        if is_missing coin ''market_cap_rank'' then
          (processed_coins,
           skipped_coins_log @ [MissingRank (get_default coin ''id'' (JStr ''Unknown ID''))])
        else if missing_keys coin = [] then
          (processed_coins @ [project required_keys coin], skipped_coins_log)
        else
          (processed_coins,
           skipped_coins_log @
             [MissingKeys (get_default coin ''id'' (JStr ''Unknown ID''))
                (get_default coin ''market_cap_rank'' (JStr ''N/A'')) (missing_keys coin)]))"

definition process_coins :: "raw list \<Rightarrow> raw list \<times> skip_entry list" where
  "process_coins all_coins = foldl process_coin ([], []) all_coins"

text \<open>The entry that the loop body logs for a coin it does not keep.\<close>

definition skip_reason :: "raw \<Rightarrow> skip_entry" where
  "skip_reason coin =
     (if is_missing coin ''market_cap_rank''
      then MissingRank (get_default coin ''id'' (JStr ''Unknown ID''))
      else MissingKeys (get_default coin ''id'' (JStr ''Unknown ID''))
             (get_default coin ''market_cap_rank'' (JStr ''N/A'')) (missing_keys coin))"

text \<open>
  \<^verbatim>\<open>fetch_market_data\<close> of app.py: \<^verbatim>\<open>None\<close> is returned after the last failed attempt of
  a page and when nothing was fetched; otherwise the processed coins (the skip log is
  what the function shows in the expander).
\<close>

definition app_fetch_market_data ::
  "client \<Rightarrow> int \<Rightarrow> int \<Rightarrow> fetch_error + raw list \<times> skip_entry list" where
  "app_fetch_market_data client pages retries =
     (case fst (fetch_pages client pages retries) of
        Inl e \<Rightarrow> Inl e
      | Inr all_coins \<Rightarrow>
          if all_coins = [] then Inl NoDataFetched else Inr (process_coins all_coins))"

subsection \<open>The standalone batch variant (fetch\_coingecko.py)\<close>

definition selected_keys :: "string list" where
  "selected_keys =
     [''id'', ''symbol'', ''name'', ''market_cap_rank'', ''market_cap'', ''current_price'']"

text \<open>
  \<^verbatim>\<open>fetch_market_data\<close> of fetch\_coingecko.py: the exception of the last failed attempt
  is raised again; otherwise \<^verbatim>\<open>[{k: coin.get(k) for k in selected_keys} for coin in all_coins]\<close>.
\<close>

definition cg_fetch_market_data :: "client \<Rightarrow> int \<Rightarrow> int \<Rightarrow> fetch_error + raw list" where
  "cg_fetch_market_data client pages retries =
     (case fst (fetch_pages client pages retries) of
        Inl e \<Rightarrow> Inl e
      | Inr all_coins \<Rightarrow> Inr (map (project selected_keys) all_coins))"


section \<open>The allocation calculator (app.py)\<close>

text \<open>
  A row of the cleaned data frame \<^verbatim>\<open>df\<close> (after \<^verbatim>\<open>pd.to_numeric\<close>, \<^verbatim>\<open>dropna\<close> and
  \<^verbatim>\<open>astype(int)\<close>, app.py line 190): the numeric columns hold numbers, the rank is an
  integer. Amounts are exact reals. Symbols are ASCII strings.
\<close>

record coin_row =
  coin_id :: string
  symbol :: string
  name :: string
  market_cap :: real
  market_cap_rank :: int
  current_price :: real

text \<open>
  Before the calculation the frame is sorted with \<^verbatim>\<open>df.sort_values\<close> of pandas (line 195).
  The sort is a library call whose code is not part of the repository and it is not
  modelled: the calculation below is defined on the frame it is given, whatever its order.
\<close>

subsection \<open>Excluded tokens\<close>

text \<open>\<^verbatim>\<open>str.lower\<close> on ASCII: the capital letters map to the small ones.\<close>

definition lower_char :: "char \<Rightarrow> char" where
  "lower_char c =
     (case map_of (zip ''ABCDEFGHIJKLMNOPQRSTUVWXYZ'' ''abcdefghijklmnopqrstuvwxyz'') c of
        None \<Rightarrow> c
      | Some l \<Rightarrow> l)"

definition str_lower :: "string \<Rightarrow> string" where
  "str_lower s = map lower_char s"

text \<open>
  \<^verbatim>\<open>str.strip()\<close> removes leading and trailing whitespace: of the ASCII characters, tab,
  line feed, vertical tab, form feed, carriage return, the four separators and the space.
\<close>

definition is_space :: "char \<Rightarrow> bool" where
  "is_space c =
     (c \<in> set [CHR 0x09, CHR 0x0A, CHR 0x0B, CHR 0x0C, CHR 0x0D,
                CHR 0x1C, CHR 0x1D, CHR 0x1E, CHR 0x1F, CHR 0x20])"

definition strip :: "string \<Rightarrow> string" where
  "strip s = rev (dropWhile is_space (rev (dropWhile is_space s)))"

text \<open>\<^verbatim>\<open>s.split(',')\<close>: the empty string gives one empty piece.\<close>

fun split_comma :: "string \<Rightarrow> string list" where
  "split_comma [] = [[]]"
| "split_comma (c # cs) =
     (if c = CHR '','' then [] # split_comma cs
      else (case split_comma cs of [] \<Rightarrow> [[c]] | t # ts \<Rightarrow> (c # t) # ts))"

text \<open>
  Lines 203-204: \<^verbatim>\<open>set(t.strip().lower() for t in s.split(',') if t.strip())\<close>, then
  \<^verbatim>\<open>excluded_tokens.add('btc')\<close>.
\<close>

definition parse_excluded_tokens :: "string \<Rightarrow> string set" where
  "parse_excluded_tokens excluded_tokens_str =
     insert ''btc''
       (set (map (\<lambda>t. str_lower (strip t))
               (filter (\<lambda>t. strip t \<noteq> []) (split_comma excluded_tokens_str))))"

text \<open>Line 208: \<^verbatim>\<open>df[~df['symbol'].str.lower().isin(excluded_tokens)]\<close>.\<close>

definition filter_excluded :: "string set \<Rightarrow> coin_row list \<Rightarrow> coin_row list" where
  "filter_excluded excluded_tokens df =
     filter (\<lambda>r. str_lower (symbol r) \<notin> excluded_tokens) df"

text \<open>
  \<^verbatim>\<open>DataFrame.head(n)\<close>: the first \<open>n\<close> rows; for a negative \<open>n\<close>, all rows but the
  last \<open>-n\<close>.
\<close>

definition head :: "int \<Rightarrow> 'a list \<Rightarrow> 'a list" where
  "head n df = (if 0 \<le> n then take (nat n) df else take (length df - nat (- n)) df)"

text \<open>Lines 203-222: the basket is the head of the filtered frame.\<close>

definition altcoin_basket :: "string \<Rightarrow> int \<Rightarrow> coin_row list \<Rightarrow> coin_row list" where
  "altcoin_basket excluded_tokens_str top_n_altcoins df =
     head top_n_altcoins (filter_excluded (parse_excluded_tokens excluded_tokens_str) df)"

subsection \<open>Weights and targets\<close>

record alloc_row =
  basket_rank :: nat
  basket_coin :: coin_row
  weight_pct :: real
  target_allocation_usd :: real

text \<open>
  What the calculation shows: one of the three warnings, or the two targets, the total
  market cap of the basket and the rows of the basket.
\<close>

datatype calc_result =
    NoAltcoinsRemaining
  | CouldNotSelectTopN
  | BasketMarketCapZero
  | Allocation real real real "alloc_row list"

text \<open>Lines 239-243 and 253-255 for one row of the basket.\<close>

definition make_row :: "real \<Rightarrow> real \<Rightarrow> nat \<times> coin_row \<Rightarrow> alloc_row" where
  "make_row total_altcoin_basket_market_cap target_altcoin_basket_usd ir =
     (let w = (market_cap (snd ir) / total_altcoin_basket_market_cap) * 100 in
      \<lparr>basket_rank = fst ir + 1, basket_coin = snd ir, weight_pct = w,
       target_allocation_usd = (w / 100) * target_altcoin_basket_usd\<rparr>)"

text \<open>
  Lines 202-255, on the frame \<open>df\<close> after the sort. The sum and the products are
  those of the real numbers: what pandas computes in 64-bit integers or floating-point
  numbers can differ from them by rounding or wrap-around, about which the model says
  nothing.
\<close>

definition calculate_allocation ::
  "real \<Rightarrow> real \<Rightarrow> real \<Rightarrow> string \<Rightarrow> int \<Rightarrow> coin_row list \<Rightarrow> calc_result" where
  "calculate_allocation total_portfolio_usd btc_target_weight_percent
       alt_target_weight_percent excluded_tokens_str top_n_altcoins df =
     (if filter_excluded (parse_excluded_tokens excluded_tokens_str) df = []
      then NoAltcoinsRemaining
      else
        let basket = altcoin_basket excluded_tokens_str top_n_altcoins df in
        if basket = [] then CouldNotSelectTopN
        else
          let target_btc_usd = total_portfolio_usd * (btc_target_weight_percent / 100);
              target_altcoin_basket_usd = total_portfolio_usd * (alt_target_weight_percent / 100);
              total_altcoin_basket_market_cap = sum_list (map market_cap basket)
          in
            if total_altcoin_basket_market_cap > 0 then
              Allocation target_btc_usd target_altcoin_basket_usd total_altcoin_basket_market_cap
                (map (make_row total_altcoin_basket_market_cap target_altcoin_basket_usd)
                   (enumerate 0 basket))
            else BasketMarketCapZero)"

section \<open>The CSV snapshot script (fetcher.py)\<close>

text \<open>
  An element of the response: \<^verbatim>\<open>item["rank"]\<close>, \<^verbatim>\<open>item["symbol"]\<close> and the two numbers
  under \<^verbatim>\<open>item["quotes"]["USD"]\<close>.
\<close>

record ticker =
  tk_rank :: int
  tk_symbol :: string
  tk_price :: real
  tk_market_cap :: real

text \<open>A row of the CSV. A date is its ordinal (\<^verbatim>\<open>date.toordinal()\<close>).\<close>

record csv_row =
  snapshot_date :: int
  rank :: int
  row_symbol :: string
  price_usd :: real
  market_cap_usd :: real

definition EXCLUDE_STABLES :: "string set" where
  "EXCLUDE_STABLES = {''USDT'', ''USDC'', ''DAI'', ''TUSD'', ''FDUSD''}"

text \<open>
  \<^verbatim>\<open>last_four_mondays\<close>: the Monday on or before today (ordinal 1 is a Monday), then
  the three Mondays before it.
\<close>

definition last_four_mondays :: "int \<Rightarrow> int list" where
  "last_four_mondays today =
     (let last_mon = today - (today + 6) mod 7
      in [last_mon, last_mon - 7, last_mon - 14, last_mon - 21])"

text \<open>The dictionary appended for an item (lines 32-39).\<close>

definition csv_row_of :: "int \<Rightarrow> ticker \<Rightarrow> csv_row" where
  "csv_row_of day item =
     \<lparr>snapshot_date = day, rank = tk_rank item, row_symbol = tk_symbol item,
      price_usd = tk_price item, market_cap_usd = tk_market_cap item\<rparr>"

text \<open>The loop \<^verbatim>\<open>for item in resp.json()\<close> (lines 27-39), with its \<^verbatim>\<open>break\<close> and \<^verbatim>\<open>continue\<close>.\<close>

fun scan_items :: "int \<Rightarrow> ticker list \<Rightarrow> csv_row list \<Rightarrow> csv_row list" where
  "scan_items day [] rows = rows"
| "scan_items day (item # rest) rows =
     (if tk_rank item > 50 then rows
      else if tk_symbol item \<in> EXCLUDE_STABLES then scan_items day rest rows
      else scan_items day rest (rows @ [csv_row_of day item]))"

text \<open>
  The outcome of the request of one day: \<^verbatim>\<open>raise_for_status\<close> raises, or the tickers.
\<close>

datatype cp_response = HTTPError | Tickers "ticker list"

text \<open>
  The loop over the days (lines 22-40). An exception ends the script before the CSV is
  written.
\<close>

fun snapshot_loop :: "(int \<Rightarrow> cp_response) \<Rightarrow> int list \<Rightarrow> csv_row list \<Rightarrow> unit + csv_row list" where
  "snapshot_loop cp [] rows = Inr rows"
| "snapshot_loop cp (day # days) rows =
     (case cp day of
        HTTPError \<Rightarrow> Inl ()
      | Tickers items \<Rightarrow> snapshot_loop cp days (scan_items day items rows))"

definition snapshot_rows :: "(int \<Rightarrow> cp_response) \<Rightarrow> int \<Rightarrow> unit + csv_row list" where
  "snapshot_rows cp today = snapshot_loop cp (last_four_mondays today) []"

text \<open>What holds of every row that the script appends.\<close>

definition row_ok :: "csv_row \<Rightarrow> bool" where
  "row_ok row = (rank row \<le> 50 \<and> row_symbol row \<notin> EXCLUDE_STABLES)"

section \<open>Example data\<close>

definition coin_eth :: raw where
  "coin_eth =
     [(''id'', JStr ''ethereum''), (''symbol'', JStr ''eth''), (''name'', JStr ''Ethereum''),
      (''current_price'', JNum 2000), (''market_cap'', JNum 1000), (''market_cap_rank'', JNum 2),
      (''total_volume'', JNum 7)]"

definition coin_sol :: raw where
  "coin_sol =
     [(''id'', JStr ''solana''), (''symbol'', JStr ''sol''), (''name'', JStr ''Solana''),
      (''current_price'', JNum 100), (''market_cap'', JNum 500), (''market_cap_rank'', JNum 5)]"

text \<open>An API whose second page is empty and whose third page is not.\<close>

definition client_empty_second :: client where
  "client_empty_second page attempt =
     (if page = 1 then Json [coin_eth] else if page = 2 then Json [] else Json [coin_sol])"




text \<open>A coin whose rank is null and whose other fields are valid.\<close>

definition coin_null_rank :: raw where
  "coin_null_rank =
     [(''id'', JStr ''dust''), (''symbol'', JStr ''dst''), (''name'', JStr ''Dust''),
      (''current_price'', JNum 1), (''market_cap'', JNum 3), (''market_cap_rank'', JNull)]"

text \<open>A coin with a rank and without the key \<^verbatim>\<open>market_cap\<close>.\<close>

definition coin_no_cap :: raw where
  "coin_no_cap =
     [(''id'', JStr ''newcoin''), (''symbol'', JStr ''new''), (''name'', JStr ''New Coin''),
      (''current_price'', JNum 1), (''market_cap_rank'', JNum 7)]"

definition client_partial :: client where
  "client_partial page attempt = Json [coin_eth, coin_no_cap]"

text \<open>What app.py keeps of \<open>coin_eth\<close>.\<close>

definition eth_record :: raw where
  "eth_record =
     [(''id'', JStr ''ethereum''), (''symbol'', JStr ''eth''), (''name'', JStr ''Ethereum''),
      (''market_cap'', JNum 1000), (''market_cap_rank'', JNum 2), (''current_price'', JNum 2000)]"


text \<open>Rows of a cleaned frame; the symbol of Ethereum is in capitals.\<close>

definition row_btc :: coin_row where
  "row_btc = \<lparr>coin_id = ''bitcoin'', symbol = ''btc'', name = ''Bitcoin'',
     market_cap = 2000, market_cap_rank = 1, current_price = 60000\<rparr>"

definition row_eth :: coin_row where
  "row_eth = \<lparr>coin_id = ''ethereum'', symbol = ''ETH'', name = ''Ethereum'',
     market_cap = 1000, market_cap_rank = 2, current_price = 2000\<rparr>"

definition row_usdt :: coin_row where
  "row_usdt = \<lparr>coin_id = ''tether'', symbol = ''usdt'', name = ''Tether'',
     market_cap = 800, market_cap_rank = 3, current_price = 1\<rparr>"

definition row_sol :: coin_row where
  "row_sol = \<lparr>coin_id = ''solana'', symbol = ''sol'', name = ''Solana'',
     market_cap = 500, market_cap_rank = 5, current_price = 100\<rparr>"

definition row_ada :: coin_row where
  "row_ada = \<lparr>coin_id = ''cardano'', symbol = ''ada'', name = ''Cardano'',
     market_cap = 400, market_cap_rank = 5, current_price = 1\<rparr>"

definition df_example :: "coin_row list" where
  "df_example = [row_btc, row_eth, row_usdt, row_sol, row_ada]"

text \<open>
  A response in which a stablecoin, a ticker whose symbol is that of a stablecoin in
  small letters, a ticker of rank 51 and, after it, a ticker of rank 10 occur.
\<close>

definition tk_btc :: ticker where
  "tk_btc = \<lparr>tk_rank = 1, tk_symbol = ''BTC'', tk_price = 60000, tk_market_cap = 2000\<rparr>"

definition tk_usdt :: ticker where
  "tk_usdt = \<lparr>tk_rank = 3, tk_symbol = ''USDT'', tk_price = 1, tk_market_cap = 800\<rparr>"

definition tk_lower :: ticker where
  "tk_lower = \<lparr>tk_rank = 4, tk_symbol = ''usdt'', tk_price = 1, tk_market_cap = 700\<rparr>"

definition tk_far :: ticker where
  "tk_far = \<lparr>tk_rank = 51, tk_symbol = ''XYZ'', tk_price = 2, tk_market_cap = 10\<rparr>"

definition tk_late :: ticker where
  "tk_late = \<lparr>tk_rank = 10, tk_symbol = ''LATE'', tk_price = 5, tk_market_cap = 300\<rparr>"

definition cp_example :: "int \<Rightarrow> cp_response" where
  "cp_example day = Tickers [tk_btc, tk_usdt, tk_lower, tk_far, tk_late]"


section \<open>Properties of the acquisition\<close>

subsection \<open>The retry loop\<close>




subsection \<open>The page loop\<close>






text \<open>
  C1. A page that comes back empty does not end the pagination. On a three-page fetch
  whose second page is empty, the request log shows a request for page 3 after the one
  for page 2, and the records of page 3 are part of what is returned: the \<^verbatim>\<open>break\<close> under
  the comment "Stop fetching if empty data received" leaves the retry loop only.
\<close>

theorem empty_page_does_not_stop_pagination:
  "fetch_pages client_empty_second 3 3 = (Inr [coin_eth, coin_sol], [1, 2, 3])"
  by (simp add: fetch_pages_def upto.simps retry_loop.simps client_empty_second_def)





subsection \<open>Validation\<close>

lemma missing_rank_incomplete: "is_missing c ''market_cap_rank'' \<Longrightarrow> missing_keys c \<noteq> []"
  by (simp add: missing_keys_def required_keys_def)

lemma process_coin_step:
  "process_coin (p, s) c =
     (if missing_keys c = [] then (p @ [project required_keys c], s)
      else (p, s @ [skip_reason c]))"
  using missing_rank_incomplete [of c]
  by (auto simp: process_coin_def skip_reason_def)

lemma foldl_process_coin:
  "foldl process_coin (p, s) xs =
     (p @ map (project required_keys) (filter (\<lambda>c. missing_keys c = []) xs),
      s @ map skip_reason (filter (\<lambda>c. missing_keys c \<noteq> []) xs))"
  by (induction xs arbitrary: p s) (simp_all add: process_coin_step)

lemma process_coins_eq:
  "process_coins xs =
     (map (project required_keys) (filter (\<lambda>c. missing_keys c = []) xs),
      map skip_reason (filter (\<lambda>c. missing_keys c \<noteq> []) xs))"
  by (simp add: process_coins_def foldl_process_coin)

lemma map_of_project:
  "map_of (project keys c) k = (if k \<in> set keys then Some (get c k) else None)"
  by (simp add: project_def map_of_map_restrict restrict_map_def)

lemma keys_project: "map fst (project keys c) = keys"
  by (simp add: project_def comp_def)

lemma complete_not_null:
  "missing_keys c = [] \<Longrightarrow> k \<in> set required_keys \<Longrightarrow> map_of c k \<noteq> None \<and> get c k \<noteq> JNull"
  by (auto simp: missing_keys_def filter_empty_conv is_missing_def)

lemma app_partial:
  "app_fetch_market_data client_partial 1 3 =
     Inr ([eth_record], [MissingKeys (JStr ''newcoin'') (JNum 7) [''market_cap'']])"
  by (simp add: app_fetch_market_data_def fetch_pages_def upto.simps retry_loop.simps
      client_partial_def process_coins_def process_coin_def is_missing_def get_def get_default_def
      missing_keys_def required_keys_def project_def
      coin_eth_def coin_no_cap_def eth_record_def)

text \<open>
  C2, as the code has it. In app.py every record that \<^verbatim>\<open>fetch_market_data\<close> returns has
  exactly the six required keys, each with a value that is not null; the records
  returned are the six-key projections of exactly those fetched records that miss no
  required key, in order, and every other fetched record is logged as skipped. (The
  batch variant of fetch\_coingecko.py does not drop records: see the counterexample.)
\<close>

theorem app_records_complete:
  "(app_fetch_market_data client pages retries = Inr (processed_coins, skipped_coins_log) \<longrightarrow>
      (\<forall>rec \<in> set processed_coins.
         map fst rec = required_keys \<and>
         (\<forall>key \<in> set required_keys. \<exists>v. map_of rec key = Some v \<and> v \<noteq> JNull)))
   \<and> fst (process_coins all_coins) =
        map (project required_keys) (filter (\<lambda>c. missing_keys c = []) all_coins)
   \<and> length (fst (process_coins all_coins)) + length (snd (process_coins all_coins)) =
        length all_coins"
proof (intro conjI impI ballI)
  show "fst (process_coins all_coins) =
        map (project required_keys) (filter (\<lambda>c. missing_keys c = []) all_coins)"
    by (simp add: process_coins_eq)
  show "length (fst (process_coins all_coins)) + length (snd (process_coins all_coins)) =
        length all_coins"
    using sum_length_filter_compl [of "\<lambda>c. missing_keys c = []" all_coins]
    by (simp add: process_coins_eq)
next
  fix rec
  assume a: "app_fetch_market_data client pages retries = Inr (processed_coins, skipped_coins_log)"
    and r: "rec \<in> set processed_coins"
  from a obtain fetched where "process_coins fetched = (processed_coins, skipped_coins_log)"
    by (auto simp: app_fetch_market_data_def split: sum.splits if_splits)
  with r obtain c where c: "missing_keys c = []" "rec = project required_keys c"
    by (auto simp: process_coins_eq)
  show "map fst rec = required_keys" using c by (simp add: keys_project)
  fix key assume "key \<in> set required_keys"
  with c complete_not_null [of c key]
  show "\<exists>v. map_of rec key = Some v \<and> v \<noteq> JNull"
    by (simp add: map_of_project)
qed

theorem app_records_complete_witness:
  "app_fetch_market_data client_partial 1 3 =
     Inr ([eth_record], [MissingKeys (JStr ''newcoin'') (JNum 7) [''market_cap'']]) \<and>
   map fst eth_record = required_keys \<and>
   map_of eth_record ''market_cap'' = Some (JNum 1000) \<and>
   fst (process_coins [coin_eth, coin_no_cap]) = [eth_record] \<and>
   length (fst (process_coins [coin_eth, coin_no_cap])) +
     length (snd (process_coins [coin_eth, coin_no_cap])) = 2"
  using app_records_complete [of client_partial 1 3 "[eth_record]"
      "[MissingKeys (JStr ''newcoin'') (JNum 7) [''market_cap'']]" "[coin_eth, coin_no_cap]"]
    app_partial
  by (simp add: process_coins_def process_coin_def is_missing_def get_def get_default_def
      missing_keys_def required_keys_def project_def
      coin_eth_def coin_no_cap_def eth_record_def)

text \<open>
  C2 as stated fails on the batch variant, which the claim also covers: a fetched
  record without the key \<^verbatim>\<open>market_cap\<close> is returned by \<^verbatim>\<open>fetch_market_data\<close> of
  fetch\_coingecko.py, with \<^verbatim>\<open>market_cap\<close> null.
\<close>

theorem cg_emits_partial_record:
  "cg_fetch_market_data client_partial 1 3 =
     Inr [[(''id'', JStr ''ethereum''), (''symbol'', JStr ''eth''), (''name'', JStr ''Ethereum''),
           (''market_cap_rank'', JNum 2), (''market_cap'', JNum 1000), (''current_price'', JNum 2000)],
          [(''id'', JStr ''newcoin''), (''symbol'', JStr ''new''), (''name'', JStr ''New Coin''),
           (''market_cap_rank'', JNum 7), (''market_cap'', JNull), (''current_price'', JNum 1)]]"
  by (simp add: cg_fetch_market_data_def fetch_pages_def upto.simps retry_loop.simps
      client_partial_def project_def selected_keys_def get_def coin_eth_def coin_no_cap_def)

text \<open>
  C6. A fetched record whose \<^verbatim>\<open>market_cap_rank\<close> is absent or null contributes nothing to
  the processed coins, whatever its other fields hold, and exactly one entry to the skip
  log, the one for a missing rank: processing a list that contains it gives the processed
  coins of the records before it followed by those of the records after it.
\<close>

theorem null_rank_is_skipped:
  assumes "is_missing c ''market_cap_rank''"
  shows "process_coins (before @ c # after) =
           (fst (process_coins before) @ fst (process_coins after),
            snd (process_coins before) @
              MissingRank (get_default c ''id'' (JStr ''Unknown ID'')) # snd (process_coins after))"
  using assms missing_rank_incomplete [OF assms]
  by (simp add: process_coins_eq skip_reason_def)

theorem null_rank_is_skipped_witness:
  "is_missing coin_null_rank ''market_cap_rank'' \<and>
   missing_keys coin_null_rank = [''market_cap_rank''] \<and>
   process_coins ([coin_eth] @ coin_null_rank # [coin_no_cap]) =
     ([eth_record],
      [MissingRank (JStr ''dust''), MissingKeys (JStr ''newcoin'') (JNum 7) [''market_cap'']])"
proof -
  have h: "is_missing coin_null_rank ''market_cap_rank''"
    by (simp add: is_missing_def get_def coin_null_rank_def)
  have m: "missing_keys coin_null_rank = [''market_cap_rank'']"
    by (simp add: process_coins_def process_coin_def is_missing_def get_def get_default_def
      missing_keys_def required_keys_def project_def
      coin_null_rank_def)
  have a: "process_coins [coin_eth] = ([eth_record], [])"
    by (simp add: process_coins_def process_coin_def is_missing_def get_def get_default_def
      missing_keys_def required_keys_def project_def
      coin_eth_def eth_record_def)
  have b: "process_coins [coin_no_cap] =
      ([], [MissingKeys (JStr ''newcoin'') (JNum 7) [''market_cap'']])"
    by (simp add: process_coins_def process_coin_def is_missing_def get_def get_default_def
      missing_keys_def required_keys_def project_def
      coin_no_cap_def)
  have i: "get_default coin_null_rank ''id'' (JStr ''Unknown ID'') = JStr ''dust''"
    by (simp add: get_default_def coin_null_rank_def)
  show ?thesis
    using null_rank_is_skipped [OF h, of "[coin_eth]" "[coin_no_cap]"] h m
    by (simp only: a b i fst_conv snd_conv append.simps simp_thms)
qed

text \<open>
  C9. In the batch variant, \<^verbatim>\<open>fetch_market_data\<close> returns one record for every fetched
  record, none dropped, and each returned record has exactly the six selected keys, in
  the order of \<^verbatim>\<open>selected_keys\<close>: a selected key holds the source's value, or null when
  the source record lacks the key, and no other key of the source is kept.
\<close>

theorem cg_records_have_six_keys:
  "(cg_fetch_market_data client pages retries = Inr out \<longrightarrow>
      (\<forall>rec \<in> set out. map fst rec = selected_keys))
   \<and> (fst (fetch_pages client pages retries) = Inr all_coins \<longrightarrow>
        cg_fetch_market_data client pages retries = Inr (map (project selected_keys) all_coins))
   \<and> map_of (project selected_keys c) k =
       (if k \<in> set selected_keys
        then (case map_of c k of None \<Rightarrow> Some JNull | Some v \<Rightarrow> Some v) else None)
   \<and> length selected_keys = 6 \<and> distinct selected_keys"
proof (intro conjI impI)
  assume "cg_fetch_market_data client pages retries = Inr out"
  then show "\<forall>rec \<in> set out. map fst rec = selected_keys"
    by (auto simp: cg_fetch_market_data_def keys_project split: sum.splits)
next
  assume "fst (fetch_pages client pages retries) = Inr all_coins"
  then show "cg_fetch_market_data client pages retries = Inr (map (project selected_keys) all_coins)"
    by (simp add: cg_fetch_market_data_def)
next
  show "map_of (project selected_keys c) k =
       (if k \<in> set selected_keys
        then (case map_of c k of None \<Rightarrow> Some JNull | Some v \<Rightarrow> Some v) else None)"
    by (simp add: map_of_project get_def split: option.splits)
  show "length selected_keys = 6" by (simp add: selected_keys_def)
  show "distinct selected_keys" by (simp add: selected_keys_def)
qed

theorem cg_records_have_six_keys_witness:
  "fst (fetch_pages client_partial 1 1) = Inr [coin_eth, coin_no_cap] \<and>
   cg_fetch_market_data client_partial 1 1 =
     Inr [project selected_keys coin_eth, project selected_keys coin_no_cap] \<and>
   map fst (project selected_keys coin_no_cap) = selected_keys \<and>
   map_of (project selected_keys coin_no_cap) ''market_cap'' = Some JNull \<and>
   map_of (project selected_keys coin_eth) ''market_cap'' = Some (JNum 1000) \<and>
   map_of (project selected_keys coin_eth) ''total_volume'' = None"
proof -
  have f: "fst (fetch_pages client_partial 1 1) = Inr [coin_eth, coin_no_cap]"
    by (simp add: fetch_pages_def upto.simps retry_loop.simps client_partial_def)
  have c: "cg_fetch_market_data client_partial 1 1 =
      Inr [project selected_keys coin_eth, project selected_keys coin_no_cap]"
    using cg_records_have_six_keys [of client_partial 1 1 _ "[coin_eth, coin_no_cap]"] f
    by simp
  have k: "\<forall>rec \<in> set [project selected_keys coin_eth, project selected_keys coin_no_cap].
      map fst rec = selected_keys"
    using cg_records_have_six_keys [of client_partial 1 1
        "[project selected_keys coin_eth, project selected_keys coin_no_cap]"] c
    by blast
  have m1: "map_of (project selected_keys coin_no_cap) ''market_cap'' = Some JNull"
    using cg_records_have_six_keys [of _ _ _ _ _ coin_no_cap "''market_cap''"]
    by (simp add: selected_keys_def coin_no_cap_def)
  have m2: "map_of (project selected_keys coin_eth) ''market_cap'' = Some (JNum 1000)"
    using cg_records_have_six_keys [of _ _ _ _ _ coin_eth "''market_cap''"]
    by (simp add: selected_keys_def coin_eth_def)
  have m3: "map_of (project selected_keys coin_eth) ''total_volume'' = None"
    using cg_records_have_six_keys [of _ _ _ _ _ coin_eth "''total_volume''"]
    by (simp add: selected_keys_def)
  show ?thesis using f c k m1 m2 m3 by simp
qed


section \<open>Properties of the calculator\<close>

subsection \<open>Evaluation of the examples\<close>

lemma parse_example: "parse_excluded_tokens ''usdt, USDC ,,'' = {''btc'', ''usdt'', ''usdc''}"
  by (simp add: parse_excluded_tokens_def strip_def is_space_def str_lower_def lower_char_def)

lemma basket_example: "altcoin_basket ''usdt, USDC ,,'' 2 df_example = [row_eth, row_sol]"
  by (simp add: altcoin_basket_def head_def filter_excluded_def parse_example str_lower_def
      lower_char_def row_btc_def row_eth_def row_usdt_def row_sol_def row_ada_def
      df_example_def)

lemma filter_example:
  "filter_excluded (parse_excluded_tokens ''usdt, USDC ,,'') df_example = [row_eth, row_sol, row_ada]"
  by (simp add: filter_excluded_def parse_example str_lower_def lower_char_def
      row_btc_def row_eth_def row_usdt_def row_sol_def row_ada_def
      df_example_def)




subsection \<open>Basket and targets\<close>

lemma map_coin_rows:
  "map basket_coin (map (make_row T ta) (enumerate n basket)) = basket"
  by (induction basket arbitrary: n) (simp_all add: make_row_def Let_def)

text \<open>
  C7. The set of excluded tokens always contains \<^verbatim>\<open>btc\<close>; no row of the basket has a
  lower-cased symbol in that set; and when \<open>top_n\<close> is not negative and at least \<open>top_n\<close>
  rows remain after the exclusion filter, the basket has exactly \<open>top_n\<close> rows, because
  the head is taken from the filtered frame. The rows shown are those of the basket.
\<close>

theorem exclusion_before_truncation:
  "''btc'' \<in> parse_excluded_tokens s
   \<and> (\<forall>r \<in> set (altcoin_basket s top_n df). str_lower (symbol r) \<notin> parse_excluded_tokens s)
   \<and> (0 \<le> top_n \<and> top_n \<le> int (length (filter_excluded (parse_excluded_tokens s) df)) \<longrightarrow>
        length (altcoin_basket s top_n df) = nat top_n)
   \<and> (calculate_allocation P b a s top_n df = Allocation tb ta tot rows \<longrightarrow>
        map basket_coin rows = altcoin_basket s top_n df)"
proof (intro conjI impI ballI)
  show "''btc'' \<in> parse_excluded_tokens s" by (simp add: parse_excluded_tokens_def)
next
  fix r assume "r \<in> set (altcoin_basket s top_n df)"
  then have "r \<in> set (filter_excluded (parse_excluded_tokens s) df)"
    by (auto simp: altcoin_basket_def head_def dest: in_set_takeD split: if_splits)
  then show "str_lower (symbol r) \<notin> parse_excluded_tokens s"
    by (simp add: filter_excluded_def)
next
  assume "0 \<le> top_n \<and> top_n \<le> int (length (filter_excluded (parse_excluded_tokens s) df))"
  then have "nat top_n \<le> length (filter_excluded (parse_excluded_tokens s) df)"
    by linarith
  then show "length (altcoin_basket s top_n df) = nat top_n"
    using \<open>0 \<le> top_n \<and> _\<close> by (simp add: altcoin_basket_def head_def)
next
  assume "calculate_allocation P b a s top_n df = Allocation tb ta tot rows"
  then show "map basket_coin rows = altcoin_basket s top_n df"
    by (auto simp: calculate_allocation_def Let_def map_coin_rows [unfolded map_map]
        split: if_splits)
qed

theorem exclusion_before_truncation_witness:
  "parse_excluded_tokens ''usdt, USDC ,,'' = {''btc'', ''usdt'', ''usdc''} \<and>
   filter_excluded (parse_excluded_tokens ''usdt, USDC ,,'') df_example = [row_eth, row_sol, row_ada] \<and>
   (0::int) \<le> 2 \<and> (2::int) \<le> int (length [row_eth, row_sol, row_ada]) \<and>
   altcoin_basket ''usdt, USDC ,,'' 2 df_example = [row_eth, row_sol] \<and>
   length (altcoin_basket ''usdt, USDC ,,'' 2 df_example) = 2 \<and>
   str_lower (symbol row_usdt) \<in> parse_excluded_tokens ''usdt, USDC ,,'' \<and>
   row_usdt \<notin> set (altcoin_basket ''usdt, USDC ,,'' 2 df_example)"
proof -
  have l: "length (altcoin_basket ''usdt, USDC ,,'' 2 df_example) = 2"
    using exclusion_before_truncation [of "''usdt, USDC ,,''" 2 df_example]
    by (simp add: filter_example)
  have u: "str_lower (symbol row_usdt) \<in> parse_excluded_tokens ''usdt, USDC ,,''"
    by (simp add: parse_example row_usdt_def str_lower_def lower_char_def)
  have n: "row_usdt \<notin> set (altcoin_basket ''usdt, USDC ,,'' 2 df_example)"
    using exclusion_before_truncation [of "''usdt, USDC ,,''" 2 df_example] u by blast
  show ?thesis
    by (intro conjI parse_example filter_example basket_example l u n) simp_all
qed




section \<open>Properties of the snapshot script\<close>

lemma scan_items_eq:
  "scan_items day items rows =
     rows @ map (csv_row_of day)
       (filter (\<lambda>i. tk_symbol i \<notin> EXCLUDE_STABLES) (takeWhile (\<lambda>i. tk_rank i \<le> 50) items))"
proof (induction items arbitrary: rows)
  case Nil
  show ?case by simp
next
  case (Cons item rest)
  show ?case
  proof (cases "tk_rank item > 50")
    case True
    then show ?thesis by simp
  next
    case False
    then have le: "tk_rank item \<le> 50" by simp
    show ?thesis
    proof (cases "tk_symbol item \<in> EXCLUDE_STABLES")
      case True
      with le Cons.IH [of rows] show ?thesis by simp
    next
      case False
      with le Cons.IH [of "rows @ [csv_row_of day item]"] show ?thesis by simp
    qed
  qed
qed

lemma scan_items_inv:
  assumes "list_all row_ok rows"
  shows "list_all row_ok (scan_items day items rows)"
proof -
  have "row_ok (csv_row_of day i)"
    if "i \<in> set (takeWhile (\<lambda>i. tk_rank i \<le> 50) items)" "tk_symbol i \<notin> EXCLUDE_STABLES" for i
  proof -
    from that(1) have "tk_rank i \<le> 50" by (rule set_takeWhileD [THEN conjunct2])
    with that(2) show ?thesis by (simp add: row_ok_def csv_row_of_def)
  qed
  with assms show ?thesis
    unfolding scan_items_eq list_all_iff by auto
qed

lemma snapshot_loop_inv:
  "list_all row_ok rows \<Longrightarrow> snapshot_loop cp days rows = Inr out \<Longrightarrow> list_all row_ok out"
proof (induction days arbitrary: rows)
  case Nil
  then show ?case by simp
next
  case (Cons day days)
  show ?case
  proof (cases "cp day")
    case HTTPError
    with Cons.prems(2) show ?thesis by simp
  next
    case (Tickers items)
    with Cons.prems(2) have l: "snapshot_loop cp days (scan_items day items rows) = Inr out"
      by simp
    from scan_items_inv [OF Cons.prems(1)] l show ?thesis by (rule Cons.IH)
  qed
qed

lemma takeWhile_stops:
  "\<not> P x \<Longrightarrow> takeWhile P (pre @ x # post) = takeWhile P pre"
  by (induction pre) simp_all

lemma ticker_ranks:
  "tk_rank tk_btc = 1" "tk_rank tk_usdt = 3" "tk_rank tk_lower = 4" "tk_rank tk_far = 51"
  "tk_rank tk_late = 10"
  by (simp_all add: tk_btc_def tk_usdt_def tk_lower_def tk_far_def tk_late_def)

lemma ticker_stables:
  "tk_symbol tk_btc \<notin> EXCLUDE_STABLES" "tk_symbol tk_usdt \<in> EXCLUDE_STABLES"
  "tk_symbol tk_lower \<notin> EXCLUDE_STABLES" "tk_symbol tk_late \<notin> EXCLUDE_STABLES"
  by (simp_all add: tk_btc_def tk_usdt_def tk_lower_def tk_late_def EXCLUDE_STABLES_def)

lemma mondays_example: "last_four_mondays 738000 = [737997, 737990, 737983, 737976]"
  by (simp add: last_four_mondays_def)

lemma scan_example:
  "scan_items day [tk_btc, tk_usdt, tk_lower, tk_far, tk_late] rows =
     rows @ [csv_row_of day tk_btc, csv_row_of day tk_lower]"
  by (simp add: ticker_ranks ticker_stables)

lemma snapshot_example:
  "snapshot_rows cp_example 738000 =
     Inr [csv_row_of 737997 tk_btc, csv_row_of 737997 tk_lower,
          csv_row_of 737990 tk_btc, csv_row_of 737990 tk_lower,
          csv_row_of 737983 tk_btc, csv_row_of 737983 tk_lower,
          csv_row_of 737976 tk_btc, csv_row_of 737976 tk_lower]"
  by (simp add: snapshot_rows_def mondays_example cp_example_def scan_example
      del: scan_items.simps)

text \<open>
  C10. Every row that the script collects has a rank of at most 50 and a symbol that is
  none of the five strings of \<^verbatim>\<open>EXCLUDE_STABLES\<close> (compared as they are, so \<^verbatim>\<open>usdt\<close> in
  small letters is kept). The scan of a response ends at an item of rank above 50: what
  follows that item adds no row, whatever its rank.
\<close>

theorem snapshot_rows_top50:
  "(snapshot_rows cp today = Inr out \<longrightarrow>
      (\<forall>row \<in> set out. rank row \<le> 50 \<and> row_symbol row \<notin> EXCLUDE_STABLES))
   \<and> (tk_rank x > 50 \<longrightarrow> scan_items day (pre @ x # post) rows = scan_items day pre rows)"
proof (intro conjI impI)
  assume "snapshot_rows cp today = Inr out"
  then have "snapshot_loop cp (last_four_mondays today) [] = Inr out"
    by (simp add: snapshot_rows_def)
  with snapshot_loop_inv [of "[]" cp "last_four_mondays today" out]
  have "list_all row_ok out" by simp
  then show "\<forall>row \<in> set out. rank row \<le> 50 \<and> row_symbol row \<notin> EXCLUDE_STABLES"
    by (simp add: list_all_iff row_ok_def)
next
  assume "tk_rank x > 50"
  then have "\<not> tk_rank x \<le> 50" by simp
  then have "takeWhile (\<lambda>i. tk_rank i \<le> 50) (pre @ x # post) = takeWhile (\<lambda>i. tk_rank i \<le> 50) pre"
    by (rule takeWhile_stops)
  then show "scan_items day (pre @ x # post) rows = scan_items day pre rows"
    by (simp only: scan_items_eq)
qed

theorem snapshot_rows_top50_witness:
  "snapshot_rows cp_example 738000 =
     Inr [csv_row_of 737997 tk_btc, csv_row_of 737997 tk_lower,
          csv_row_of 737990 tk_btc, csv_row_of 737990 tk_lower,
          csv_row_of 737983 tk_btc, csv_row_of 737983 tk_lower,
          csv_row_of 737976 tk_btc, csv_row_of 737976 tk_lower] \<and>
   rank (csv_row_of 737997 tk_lower) \<le> 50 \<and>
   row_symbol (csv_row_of 737997 tk_lower) = ''usdt'' \<and>
   row_symbol (csv_row_of 737997 tk_lower) \<notin> EXCLUDE_STABLES \<and>
   tk_rank tk_far > 50 \<and> tk_rank tk_late \<le> 50 \<and>
   scan_items 737997 ([tk_btc, tk_usdt, tk_lower] @ tk_far # [tk_late]) [] =
     scan_items 737997 [tk_btc, tk_usdt, tk_lower] [] \<and>
   scan_items 737997 [tk_btc, tk_usdt, tk_lower] [] =
     [csv_row_of 737997 tk_btc, csv_row_of 737997 tk_lower]"
proof -
  have f: "tk_rank tk_far > 50" by (simp add: ticker_ranks)
  have s: "scan_items 737997 ([tk_btc, tk_usdt, tk_lower] @ tk_far # [tk_late]) [] =
     scan_items 737997 [tk_btc, tk_usdt, tk_lower] []"
    using snapshot_rows_top50 [of _ _ _ tk_far 737997 "[tk_btc, tk_usdt, tk_lower]" "[tk_late]" "[]"] f
    by blast
  have a: "\<forall>row \<in> set [csv_row_of 737997 tk_btc, csv_row_of 737997 tk_lower,
          csv_row_of 737990 tk_btc, csv_row_of 737990 tk_lower,
          csv_row_of 737983 tk_btc, csv_row_of 737983 tk_lower,
          csv_row_of 737976 tk_btc, csv_row_of 737976 tk_lower].
        rank row \<le> 50 \<and> row_symbol row \<notin> EXCLUDE_STABLES"
    using snapshot_rows_top50 [of cp_example 738000] snapshot_example by blast
  then have r: "rank (csv_row_of 737997 tk_lower) \<le> 50 \<and>
      row_symbol (csv_row_of 737997 tk_lower) \<notin> EXCLUDE_STABLES"
    by simp
  have y: "row_symbol (csv_row_of 737997 tk_lower) = ''usdt''"
    by (simp add: csv_row_of_def tk_lower_def)
  have l: "tk_rank tk_late \<le> 50" by (simp add: ticker_ranks)
  have e: "scan_items 737997 [tk_btc, tk_usdt, tk_lower] [] =
     [csv_row_of 737997 tk_btc, csv_row_of 737997 tk_lower]"
    by (simp add: ticker_ranks ticker_stables)
  from snapshot_example r y f l s e show ?thesis by blast
qed

end
